theory Spec2Isabelle
  imports Complex_Main "HOL-Library.AList" "HOL-Library.Char_ord" "HOL-Library.List_Lexorder"
begin

section \<open>Cells, strings and the tokenizer\<close>

text \<open>
  A cell of an input table is a scalar: missing (pandas' NaN/None, what \<^verbatim>\<open>pd.isna\<close>
  accepts), a string, or a number. Numbers are Python integers; floating-point cells
  are outside this development. Strings are lists of 8-bit characters, read as code
  points below 256. The delimiter \<^verbatim>\<open>sep\<close> is a single character, as the
  specification requires of it.
\<close>

datatype cell = Missing | Text string | Number int

fun str_nat :: "nat \<Rightarrow> string" where
  "str_nat n =
     (if n < 10 then [char_of (48 + n)]
      else str_nat (n div 10) @ [char_of (48 + n mod 10)])"

declare str_nat.simps [simp del]

text \<open>
  \<^verbatim>\<open>str(x)\<close>. The tokenizer and the classifier test for a missing value before they
  convert, so the first case (the text of NaN) is never reached by them.
\<close>

definition py_str :: "cell \<Rightarrow> string" where
  "py_str x =
     (case x of
        Missing \<Rightarrow> ''nan''
      | Text s \<Rightarrow> s
      | Number i \<Rightarrow> (if i < 0 then CHR ''-'' # str_nat (nat (- i)) else str_nat (nat i)))"

text \<open>\<^verbatim>\<open>str.isspace\<close> on one character: the whitespace code points below 256.\<close>

definition py_isspace :: "char \<Rightarrow> bool" where
  "py_isspace c =
     ((of_char c :: nat) \<in> set [9, 10, 11, 12, 13, 28, 29, 30, 31, 32, 133, 160])"

text \<open>\<^verbatim>\<open>s.strip()\<close>: leading and trailing whitespace removed.\<close>

definition py_strip :: "string \<Rightarrow> string" where
  "py_strip s = rev (dropWhile py_isspace (rev (dropWhile py_isspace s)))"

text \<open>
  \<^verbatim>\<open>s.split(sep)\<close> for a one-character separator: cut at every occurrence, keeping
  empty pieces; the empty string gives one empty piece.
\<close>

function py_split :: "string \<Rightarrow> char \<Rightarrow> string list" where
  "py_split s sep =
     (case dropWhile (\<lambda>c. c \<noteq> sep) s of
        [] \<Rightarrow> [s]
      | _ # rest \<Rightarrow> takeWhile (\<lambda>c. c \<noteq> sep) s # py_split rest sep)"
  by pat_completeness auto
termination
proof (relation "measure (\<lambda>(s, sep). length s)")
  show "wf (measure (\<lambda>(s, sep). length s))" by simp
next
  fix s :: string and sep c rest
  assume "dropWhile (\<lambda>c. c \<noteq> sep) s = c # rest"
  then have "length (c # rest) \<le> length s"
    by (metis length_dropWhile_le)
  then show "((rest, sep), (s, sep)) \<in> measure (\<lambda>(s, sep). length s)" by simp
qed

declare py_split.simps [simp del]


text \<open>
  \<^verbatim>\<open>_split_to_list(x, sep)\<close>:
  \<^verbatim>\<open>if pd.isna(x): return []\<close>,
  \<^verbatim>\<open>parts = str(x).split(sep)\<close>,
  \<^verbatim>\<open>return [p.strip() for p in parts if p is not None and p.strip() != ""]\<close>.
  A piece of a split is never \<^verbatim>\<open>None\<close>.
\<close>

definition split_to_list :: "cell \<Rightarrow> char \<Rightarrow> string list" where
  "split_to_list x sep =
     (if x = Missing then []
      else (let parts = py_split (py_str x) sep
            in map py_strip (filter (\<lambda>p. py_strip p \<noteq> []) parts)))"



section \<open>Tables and the errors of the library\<close>

text \<open>
  A DataFrame is held column by column, as pandas holds it: the column labels in
  order, each with its values in row order. A well-formed frame has distinct labels
  and columns of one length. \<^verbatim>\<open>df[c]\<close> on an absent label raises \<^verbatim>\<open>KeyError\<close>;
  the two \<^verbatim>\<open>ValueError\<close>s are the one \<^verbatim>\<open>_combine_row\<close> raises in strict mode
  (row index, selected columns, the set of lengths) and the one of the DataFrame
  constructor (shape of the passed values, shape the labels imply).
\<close>

type_synonym 'a frame = "(string \<times> 'a list) list"

datatype error =
    KeyError string
  | IndexError
  | TypeError
  | ValueError_unequal_lengths nat "string list" "nat set"
  | ValueError_shape "nat \<times> nat" "nat \<times> nat"

definition len_frame :: "'a frame \<Rightarrow> nat" where
  "len_frame df = (case df of [] \<Rightarrow> 0 | (c, vs) # _ \<Rightarrow> length vs)"


text \<open>\<^verbatim>\<open>df[c]\<close> and \<^verbatim>\<open>d[c]\<close>.\<close>

definition getitem :: "(string \<times> 'v) list \<Rightarrow> string \<Rightarrow> error + 'v" where
  "getitem df c = (case map_of df c of None \<Rightarrow> Inl (KeyError c) | Some vs \<Rightarrow> Inr vs)"

text \<open>The values of a column, for stating results; empty for an absent label.\<close>

definition column :: "(string \<times> 'v list) list \<Rightarrow> string \<Rightarrow> 'v list" where
  "column df c = (case map_of df c of None \<Rightarrow> [] | Some vs \<Rightarrow> vs)"

text \<open>
  \<^verbatim>\<open>df[c] = values\<close>: an existing column is replaced where it stands, a new one is
  appended.
\<close>

definition setitem :: "'a frame \<Rightarrow> string \<Rightarrow> 'a list \<Rightarrow> 'a frame" where
  "setitem df c vs = AList.update c vs df"

text \<open>\<^verbatim>\<open>df.copy()\<close>: a new object with the same contents.\<close>

definition df_copy :: "'a frame \<Rightarrow> 'a frame" where
  "df_copy df = df"

text \<open>\<^verbatim>\<open>s.iat[i]\<close>.\<close>

definition iat :: "'a list \<Rightarrow> nat \<Rightarrow> error + 'a" where
  "iat xs i = (if i < length xs then Inr (xs ! i) else Inl IndexError)"

text \<open>A list comprehension whose elements may raise: the first error, in order, wins.\<close>

fun sequence :: "(error + 'a) list \<Rightarrow> error + 'a list" where
  "sequence [] = Inr []"
| "sequence (x # xs) =
     (case x of
        Inl e \<Rightarrow> Inl e
      | Inr v \<Rightarrow> (case sequence xs of Inl e \<Rightarrow> Inl e | Inr vs \<Rightarrow> Inr (v # vs)))"


section \<open>The column classifier\<close>

text \<open>
  \<^verbatim>\<open>s = df[c].dropna().astype(str)\<close>,
  \<^verbatim>\<open>share = (s.str.contains(sep, regex=False)).mean() if len(s) else 0.0\<close>.
  The share is a quotient of two counts; it is kept as an exact rational, and the
  threshold with it.
\<close>

definition share :: "cell list \<Rightarrow> char \<Rightarrow> rat" where
  "share col sep =
     (let s = map py_str (filter (\<lambda>x. x \<noteq> Missing) col)
      in if length s \<noteq> 0
         then of_nat (length (filter (\<lambda>t. sep \<in> set t) s)) / of_nat (length s)
         else 0)"




section \<open>The indicator materializer\<close>

text \<open>\<^verbatim>\<open>counts[t] = counts.get(t, 0) + 1\<close>, on a dictionary kept in insertion order.\<close>

definition count_token :: "(string \<times> int) list \<Rightarrow> string \<Rightarrow> (string \<times> int) list" where
  "count_token counts t =
     AList.update t ((case map_of counts t of None \<Rightarrow> 0 | Some c \<Rightarrow> c) + 1) counts"

definition frequency_table :: "string list list \<Rightarrow> (string \<times> int) list" where
  "frequency_table tokens =
     fold (\<lambda>L counts. fold (\<lambda>t counts. count_token counts t) L counts) tokens []"

text \<open>\<^verbatim>\<open>f"{pref}__{t}".replace(" ", "_")\<close>.\<close>

definition col_name :: "string \<Rightarrow> string \<Rightarrow> string" where
  "col_name pref t =
     map (\<lambda>c. if c = CHR '' '' then CHR ''_'' else c) (pref @ ''__'' @ t)"

text \<open>\<^verbatim>\<open>tokens.apply(lambda L, tok=t: int(tok in L))\<close>.\<close>

definition indicator :: "string \<Rightarrow> string list list \<Rightarrow> cell list" where
  "indicator t tokens = map (\<lambda>L. Number (if t \<in> set L then 1 else 0)) tokens"

text \<open>
  The body of \<^verbatim>\<open>for col in columns\<close>: the tokens of the column as it stands in
  \<^verbatim>\<open>out\<close>, the frequency table, the set \<^verbatim>\<open>keep\<close>, and one assignment
  \<^verbatim>\<open>out[col_name] = ...\<close> for each token of \<^verbatim>\<open>sorted(keep)\<close>.
\<close>

definition one_hot_column ::
  "cell frame \<Rightarrow> string \<Rightarrow> char \<Rightarrow> int \<Rightarrow> (string \<rightharpoonup> string) \<Rightarrow> error + cell frame" where
  "one_hot_column out col sep min_count prefix_map =
     (case getitem out col of
        Inl e \<Rightarrow> Inl e
      | Inr vs \<Rightarrow>
          (let tokens = map (\<lambda>x. split_to_list x sep) vs;
               counts = frequency_table tokens;
               keep = set (map fst (filter (\<lambda>tc. snd tc \<ge> min_count) counts));
               pref = (case prefix_map col of None \<Rightarrow> col | Some p \<Rightarrow> p)
           in Inr (fold (\<lambda>t out. setitem out (col_name pref t) (indicator t tokens))
                     (sorted_list_of_set keep) out)))"

fun one_hot_loop ::
  "cell frame \<Rightarrow> char \<Rightarrow> int \<Rightarrow> (string \<rightharpoonup> string) \<Rightarrow> string list \<Rightarrow> error + cell frame" where
  "one_hot_loop out sep min_count prefix_map [] = Inr out"
| "one_hot_loop out sep min_count prefix_map (col # cols) =
     (case one_hot_column out col sep min_count prefix_map of
        Inl e \<Rightarrow> Inl e
      | Inr out' \<Rightarrow> one_hot_loop out' sep min_count prefix_map cols)"

text \<open>
  \<^verbatim>\<open>one_hot_multivalue_columns(df, columns, sep, min_count, prefix_map)\<close>;
  \<^verbatim>\<open>prefix_map or {}\<close> turns an absent map into the empty one.
\<close>

definition one_hot_multivalue_columns ::
  "cell frame \<Rightarrow> string list \<Rightarrow> char \<Rightarrow> int \<Rightarrow> (string \<rightharpoonup> string) option \<Rightarrow> error + cell frame"
where
  "one_hot_multivalue_columns df columns sep min_count prefix_map =
     (let out = df_copy df;
          prefix_map = (case prefix_map of None \<Rightarrow> Map.empty | Some m \<Rightarrow> m)
      in one_hot_loop out sep min_count prefix_map columns)"

text \<open>
  For stating results: the token lists of a column, the number of occurrences of a
  token in it (every occurrence within a cell counted), the tokens that reach the
  minimum count, in sorted order, the prefix in force, and the indicator columns
  these give.
\<close>

definition column_tokens :: "cell frame \<Rightarrow> string \<Rightarrow> char \<Rightarrow> string list list" where
  "column_tokens df col sep = map (\<lambda>x. split_to_list x sep) (column df col)"

definition occurrences :: "cell frame \<Rightarrow> string \<Rightarrow> char \<Rightarrow> string \<Rightarrow> nat" where
  "occurrences df col sep t = count_list (concat (column_tokens df col sep)) t"

definition retained :: "cell frame \<Rightarrow> string \<Rightarrow> char \<Rightarrow> int \<Rightarrow> string list" where
  "retained df col sep min_count =
     sorted_list_of_set
       (set (filter (\<lambda>t. min_count \<le> int (occurrences df col sep t))
               (concat (column_tokens df col sep))))"

definition prefix_of :: "(string \<rightharpoonup> string) option \<Rightarrow> string \<Rightarrow> string" where
  "prefix_of prefix_map col =
     (case prefix_map of
        None \<Rightarrow> col
      | Some m \<Rightarrow> (case m col of None \<Rightarrow> col | Some p \<Rightarrow> p))"

definition indicator_columns ::
  "cell frame \<Rightarrow> string \<Rightarrow> char \<Rightarrow> int \<Rightarrow> (string \<rightharpoonup> string) option \<Rightarrow> cell frame" where
  "indicator_columns df col sep min_count prefix_map =
     map (\<lambda>t. (col_name (prefix_of prefix_map col) t, indicator t (column_tokens df col sep)))
       (retained df col sep min_count)"

section \<open>The row aligner and the explosion transform\<close>

text \<open>
  \<^verbatim>\<open>_align_lists(row_lists)\<close>:
  \<^verbatim>\<open>max_len = max((len(L) for L in row_lists), default=0)\<close>, every list padded on the
  right with \<^verbatim>\<open>None\<close> up to that length.
\<close>

definition align_lists :: "string list list \<Rightarrow> string option list list" where
  "align_lists row_lists =
     (let max_len = fold max (map length row_lists) 0
      in map (\<lambda>L. map Some L @ replicate (max_len - length L) None) row_lists)"

text \<open>
  \<^verbatim>\<open>list(zip(*aligned))\<close>: as many tuples as the shortest list has elements, none
  when there is no list.
\<close>

definition py_zip :: "'a list list \<Rightarrow> 'a list list" where
  "py_zip xss =
     (case xss of
        [] \<Rightarrow> []
      | xs # rest \<Rightarrow>
          map (\<lambda>i. map (\<lambda>ys. ys ! i) xss) [0..<fold min (map length rest) (length xs)])"

text \<open>\<^verbatim>\<open>any(v is not None and str(v).strip() != "" for v in t)\<close>.\<close>

definition keep_tuple :: "string option list \<Rightarrow> bool" where
  "keep_tuple t = list_ex (\<lambda>v. case v of None \<Rightarrow> False | Some s \<Rightarrow> py_strip s \<noteq> []) t"

text \<open>
  \<^verbatim>\<open>split_cols = {c: out[c].apply(lambda x: _split_to_list(x, sep)) for c in columns}\<close>:
  the columns are visited in order and the first absent one raises.
\<close>

fun split_columns :: "cell frame \<Rightarrow> char \<Rightarrow> string list \<Rightarrow> error + string list frame" where
  "split_columns out sep [] = Inr []"
| "split_columns out sep (c # cs) =
     (case getitem out c of
        Inl e \<Rightarrow> Inl e
      | Inr vs \<Rightarrow>
          (case split_columns out sep cs of
             Inl e \<Rightarrow> Inl e
           | Inr rest \<Rightarrow> Inr ((c, map (\<lambda>x. split_to_list x sep) vs) # rest)))"

text \<open>
  \<^verbatim>\<open>_combine_row(idx)\<close>: the token lists of the row, the check of strict mode or the
  padding, the tuples, and the filter that drops a tuple with no real entry.
\<close>

definition combine_row ::
  "string list frame \<Rightarrow> string list \<Rightarrow> bool \<Rightarrow> nat \<Rightarrow> error + string option list list" where
  "combine_row split_cols columns strict_equal_lengths idx =
     (case sequence (map (\<lambda>c. case getitem split_cols c of
                                 Inl e \<Rightarrow> Inl e
                               | Inr col \<Rightarrow> iat col idx) columns) of
        Inl e \<Rightarrow> Inl e
      | Inr row_lists \<Rightarrow>
          (if strict_equal_lengths then
             (let lengths = set (map length row_lists)
              in if card lengths > 1
                 then Inl (ValueError_unequal_lengths idx columns lengths)
                 else Inr (filter keep_tuple (py_zip (map (map Some) row_lists))))
           else Inr (filter keep_tuple (py_zip (align_lists row_lists)))))"

text \<open>
  After the explosion a cell is a scalar or one of the tuples built by
  \<^verbatim>\<open>_combine_row\<close>.
\<close>

datatype obj = Scalar cell | Tuple "string option list"

text \<open>
  What one cell of lists becomes under \<^verbatim>\<open>explode\<close>: its elements, or the NaN marker
  when the list is empty.
\<close>

definition explode_cell :: "string option list list \<Rightarrow> obj list" where
  "explode_cell tuples = (if tuples = [] then [Scalar Missing] else map Tuple tuples)"

text \<open>
  \<^verbatim>\<open>out.assign(_combined=combined).explode("_combined", ignore_index=True)\<close>, as one
  step: the column \<^verbatim>\<open>_combined\<close> is set (replacing a column of that name), then
  every row is repeated once for each element of its list, the other columns
  keeping their value on each copy.
\<close>

definition assign_explode :: "cell frame \<Rightarrow> string option list list list \<Rightarrow> obj frame" where
  "assign_explode out combined =
     setitem
       (map (\<lambda>(c, vs). (c, concat (map (\<lambda>(v, tuples).
                 replicate (length (explode_cell tuples)) (Scalar v)) (zip vs combined)))) out)
       ''_combined'' (concat (map explode_cell combined))"

text \<open>\<^verbatim>\<open>series.notna()\<close> on one cell: a tuple is not missing.\<close>

definition notna :: "obj \<Rightarrow> bool" where
  "notna v = (v \<noteq> Scalar Missing)"

text \<open>\<^verbatim>\<open>out[mask]\<close>: the rows where the mask holds.\<close>

definition select_rows :: "bool list \<Rightarrow> 'a frame \<Rightarrow> 'a frame" where
  "select_rows rows_kept df =
     map (\<lambda>(c, vs). (c, map snd (filter fst (zip rows_kept vs)))) df"

text \<open>\<^verbatim>\<open>out[out["_combined"].notna()]\<close>.\<close>

definition drop_empty :: "obj frame \<Rightarrow> error + obj frame" where
  "drop_empty out =
     (case getitem out ''_combined'' of
        Inl e \<Rightarrow> Inl e
      | Inr combined \<Rightarrow> Inr (select_rows (map notna combined) out))"

text \<open>
  \<^verbatim>\<open>pd.DataFrame(data, columns=columns, index=...)\<close> for a list \<^verbatim>\<open>data\<close>. An empty
  list gives empty columns. Otherwise the first element decides. If it is a tuple,
  the list is read as rows: a tuple gives its entries (\<^verbatim>\<open>None\<close> is a missing value),
  a missing row counts as one entry wide and is missing everywhere, a string is read
  as the row of its characters, a number has no length; the widest row must be as
  wide as the labels are many. If it is a scalar, the list is one column, and the
  labels must be one.
\<close>

fun row_width :: "obj \<Rightarrow> error + nat" where
  "row_width (Tuple t) = Inr (length t)"
| "row_width (Scalar Missing) = Inr 1"
| "row_width (Scalar (Text s)) = Inr (length s)"
| "row_width (Scalar (Number i)) = Inl TypeError"

fun row_field :: "obj \<Rightarrow> nat \<Rightarrow> obj" where
  "row_field (Tuple t) j =
     (if j < length t then (case t ! j of None \<Rightarrow> Scalar Missing | Some s \<Rightarrow> Scalar (Text s))
      else Scalar Missing)"
| "row_field (Scalar (Text s)) j =
     (if j < length s then Scalar (Text [s ! j]) else Scalar Missing)"
| "row_field (Scalar v) j = Scalar Missing"

definition DataFrame :: "obj list \<Rightarrow> string list \<Rightarrow> error + obj frame" where
  "DataFrame data columns =
     (case data of
        [] \<Rightarrow> Inr (map (\<lambda>c. (c, [])) columns)
      | Tuple t # _ \<Rightarrow>
          (case sequence (map row_width data) of
             Inl e \<Rightarrow> Inl e
           | Inr widths \<Rightarrow>
               (let k = fold max widths 0
                in if k \<noteq> length columns
                   then Inl (ValueError_shape (length data, k) (length data, length columns))
                   else Inr (map (\<lambda>j. (columns ! j, map (\<lambda>row. row_field row j) data))
                               [0..<k])))
      | Scalar v # _ \<Rightarrow>
          (case columns of
             [c] \<Rightarrow> Inr [(c, data)]
           | _ \<Rightarrow> Inl (ValueError_shape (length data, 1) (length data, length columns))))"

text \<open>\<^verbatim>\<open>for c in columns: out[c] = expanded[c]\<close>.\<close>

fun assign_columns :: "obj frame \<Rightarrow> obj frame \<Rightarrow> string list \<Rightarrow> error + obj frame" where
  "assign_columns out expanded [] = Inr out"
| "assign_columns out expanded (c # cs) =
     (case getitem expanded c of
        Inl e \<Rightarrow> Inl e
      | Inr vs \<Rightarrow> assign_columns (setitem out c vs) expanded cs)"

text \<open>
  The two ways the tuples are unpacked: \<^verbatim>\<open>out[col] = out["_combined"]\<close> when
  \<^verbatim>\<open>len(columns) == 1\<close>, and otherwise the frame \<^verbatim>\<open>expanded\<close> built from
  \<^verbatim>\<open>out["_combined"].tolist()\<close>, copied column by column.
\<close>

definition unpack_single :: "obj frame \<Rightarrow> string \<Rightarrow> error + obj frame" where
  "unpack_single out col =
     (case getitem out ''_combined'' of
        Inl e \<Rightarrow> Inl e
      | Inr combined \<Rightarrow> Inr (setitem out col combined))"

definition unpack_multi :: "obj frame \<Rightarrow> string list \<Rightarrow> error + obj frame" where
  "unpack_multi out columns =
     (case getitem out ''_combined'' of
        Inl e \<Rightarrow> Inl e
      | Inr combined \<Rightarrow>
          (case DataFrame combined columns of
             Inl e \<Rightarrow> Inl e
           | Inr expanded \<Rightarrow> assign_columns out expanded columns))"

text \<open>\<^verbatim>\<open>out.drop(columns=[c])\<close>.\<close>

definition drop_column :: "'a frame \<Rightarrow> string \<Rightarrow> error + 'a frame" where
  "drop_column df c =
     (if c \<in> set (map fst df) then Inr (AList.delete c df) else Inl (KeyError c))"

text \<open>
  \<^verbatim>\<open>explode_aligned_columns(df, columns, sep, keep_empty_rows, strict_equal_lengths)\<close>.
  \<open>explode_steps\<close> is the body after its first statement \<^verbatim>\<open>out = df.copy()\<close>. The
  index of the frame is the row position throughout (\<^verbatim>\<open>ignore_index\<close>, then
  \<^verbatim>\<open>reset_index\<close>), so it is not kept.
\<close>

definition explode_steps ::
  "cell frame \<Rightarrow> string list \<Rightarrow> char \<Rightarrow> bool \<Rightarrow> bool \<Rightarrow> error + obj frame" where
  "explode_steps out columns sep keep_empty_rows strict_equal_lengths =
     (case split_columns out sep columns of
        Inl e \<Rightarrow> Inl e
      | Inr split_cols \<Rightarrow>
      (case sequence (map (combine_row split_cols columns strict_equal_lengths)
                        [0..<len_frame out]) of
        Inl e \<Rightarrow> Inl e
      | Inr combined \<Rightarrow>
      (case (if \<not> keep_empty_rows then drop_empty (assign_explode out combined)
             else Inr (assign_explode out combined)) of
        Inl e \<Rightarrow> Inl e
      | Inr out \<Rightarrow>
      (case (case columns of [col] \<Rightarrow> unpack_single out col | _ \<Rightarrow> unpack_multi out columns) of
        Inl e \<Rightarrow> Inl e
      | Inr out \<Rightarrow> drop_column out ''_combined''))))"

definition explode_aligned_columns ::
  "cell frame \<Rightarrow> string list \<Rightarrow> char \<Rightarrow> bool \<Rightarrow> bool \<Rightarrow> error + obj frame" where
  "explode_aligned_columns df columns sep keep_empty_rows strict_equal_lengths =
     (let out = df_copy df
      in explode_steps out columns sep keep_empty_rows strict_equal_lengths)"

text \<open>
  For stating results: the token lists of row \<open>i\<close> in the selected columns, and the
  lengths found there.
\<close>

definition row_tokens :: "cell frame \<Rightarrow> string list \<Rightarrow> char \<Rightarrow> nat \<Rightarrow> string list list" where
  "row_tokens df columns sep i = map (\<lambda>c. split_to_list (column df c ! i) sep) columns"



text \<open>
  For comparison with the single-column case: the same steps with the general
  unpacking whatever the number of columns, which is how the specification describes
  a single column (tuples of length 1 handled by the same algorithm).
\<close>

definition explode_general_path ::
  "cell frame \<Rightarrow> string list \<Rightarrow> char \<Rightarrow> bool \<Rightarrow> bool \<Rightarrow> error + obj frame" where
  "explode_general_path df columns sep keep_empty_rows strict_equal_lengths =
     (case split_columns df sep columns of
        Inl e \<Rightarrow> Inl e
      | Inr split_cols \<Rightarrow>
      (case sequence (map (combine_row split_cols columns strict_equal_lengths)
                        [0..<len_frame df]) of
        Inl e \<Rightarrow> Inl e
      | Inr combined \<Rightarrow>
      (case (if \<not> keep_empty_rows then drop_empty (assign_explode df combined)
             else Inr (assign_explode df combined)) of
        Inl e \<Rightarrow> Inl e
      | Inr out \<Rightarrow>
      (case unpack_multi out columns of
        Inl e \<Rightarrow> Inl e
      | Inr out \<Rightarrow> drop_column out ''_combined''))))"

section \<open>The operations as calls on DataFrame objects\<close>








section \<open>Facts about splitting, joining and trimming\<close>



















section \<open>Facts about columns and the share\<close>





lemma share_all_missing: "list_all (\<lambda>x. x = Missing) col \<Longrightarrow> share col sep = 0"
proof -
  assume "list_all (\<lambda>x. x = Missing) col"
  then have "filter (\<lambda>x. x \<noteq> Missing) col = []"
    by (simp add: list_all_iff filter_empty_conv)
  then show ?thesis by (simp add: share_def)
qed


section \<open>Facts about the explosion transform\<close>
















lemma getitem_setitem_other: "c' \<noteq> c \<Longrightarrow> getitem (setitem df c vs) c' = getitem df c'"
  by (simp add: getitem_def setitem_def update_conv')





































lemma delete_absent: "k \<notin> set (map fst al) \<Longrightarrow> AList.delete k al = al"
  by (simp add: delete_id)





section \<open>Facts about the indicator materializer\<close>

lemma count_token_keys:
  "distinct (map fst counts) \<Longrightarrow> distinct (map fst (count_token counts t))"
  by (simp add: count_token_def distinct_update)

lemma count_token_lookup:
  "map_of (count_token counts t) u =
     (if u = t then Some ((case map_of counts t of None \<Rightarrow> 0 | Some c \<Rightarrow> c) + 1)
      else map_of counts u)"
  by (simp add: count_token_def update_conv')

lemma fold_count_token_keys:
  "distinct (map fst counts) \<Longrightarrow> distinct (map fst (fold (\<lambda>t c. count_token c t) L counts))"
  by (induction L arbitrary: counts) (simp_all add: count_token_keys)

lemma fold_count_token_lookup:
  "map_of (fold (\<lambda>t c. count_token c t) L counts) u =
     (if u \<in> set L
      then Some ((case map_of counts u of None \<Rightarrow> 0 | Some c \<Rightarrow> c) + int (count_list L u))
      else map_of counts u)"
proof (induction L arbitrary: counts)
  case Nil
  then show ?case by simp
next
  case (Cons t L)
  show ?case by (simp add: Cons.IH count_token_lookup split: option.splits)
qed

lemma fold_fold_concat: "fold (\<lambda>L s. fold f L s) xss s = fold f (concat xss) s"
  by (induction xss arbitrary: s) simp_all

lemma frequency_table_fold:
  "frequency_table tokens = fold (\<lambda>t c. count_token c t) (concat tokens) []"
  by (simp only: frequency_table_def fold_fold_concat)

lemma frequency_table_lookup:
  "map_of (frequency_table tokens) u =
     (if u \<in> set (concat tokens) then Some (int (count_list (concat tokens) u)) else None)"
  by (simp only: frequency_table_fold fold_count_token_lookup) simp

lemma frequency_table_keys: "distinct (map fst (frequency_table tokens))"
  by (simp only: frequency_table_fold) (rule fold_count_token_keys, simp)

text \<open>The set \<^verbatim>\<open>keep\<close> of the code, in terms of occurrences.\<close>

lemma keep_set:
  "set (map fst (filter (\<lambda>tc. snd tc \<ge> m) (frequency_table tokens)))
     = set (filter (\<lambda>t. m \<le> int (count_list (concat tokens) t)) (concat tokens))"
proof (rule set_eqI)
  fix t
  let ?ft = "frequency_table tokens"
  have "t \<in> set (map fst (filter (\<lambda>tc. snd tc \<ge> m) ?ft))
          \<longleftrightarrow> (\<exists>c. (t, c) \<in> set ?ft \<and> m \<le> c)" by force
  also have "\<dots> \<longleftrightarrow> (\<exists>c. map_of ?ft t = Some c \<and> m \<le> c)"
    using frequency_table_keys [of tokens] by (auto dest: map_of_SomeD)
  also have "\<dots> \<longleftrightarrow> t \<in> set (concat tokens) \<and> m \<le> int (count_list (concat tokens) t)"
    by (simp only: frequency_table_lookup) auto
  finally show "t \<in> set (map fst (filter (\<lambda>tc. snd tc \<ge> m) ?ft))
     \<longleftrightarrow> t \<in> set (filter (\<lambda>t. m \<le> int (count_list (concat tokens) t)) (concat tokens))"
    by simp
qed

lemma one_hot_column_spec:
  assumes c: "col \<in> set (map fst df)" and same: "map_of out col = map_of df col"
  shows "one_hot_column out col sep m (case P of None \<Rightarrow> Map.empty | Some q \<Rightarrow> q)
           = Inr (fold (\<lambda>nv out. setitem out (fst nv) (snd nv))
                    (indicator_columns df col sep m P) out)"
proof -
  from c obtain vs where vs: "map_of df col = Some vs"
    by (metis map_of_eq_None_iff not_None_eq set_map)
  then have col: "column df col = vs" by (simp add: column_def)
  from vs same have g: "getitem out col = Inr vs" by (simp add: getitem_def)
  have p: "(case (case P of None \<Rightarrow> Map.empty | Some q \<Rightarrow> q) col of None \<Rightarrow> col | Some p \<Rightarrow> p)
             = prefix_of P col"
    by (simp add: prefix_of_def split: option.splits)
  have k: "sorted_list_of_set (set (map fst (filter (\<lambda>tc. snd tc \<ge> m)
               (frequency_table (map (\<lambda>x. split_to_list x sep) vs)))))
             = retained df col sep m"
    by (simp only: keep_set retained_def occurrences_def column_tokens_def col)
  show ?thesis
    by (simp only: one_hot_column_def g sum.case Let_def p k indicator_columns_def fold_map
        comp_def fst_conv snd_conv column_tokens_def col)
qed

lemma setitem_fresh: "k \<notin> set (map fst out) \<Longrightarrow> setitem out k v = out @ [(k, v)]"
  by (induction out) (auto simp: setitem_def)

lemma fold_setitem_fresh:
  "distinct (map fst out @ map fst new) \<Longrightarrow>
     fold (\<lambda>nv out. setitem out (fst nv) (snd nv)) new out = out @ new"
proof (induction new arbitrary: out)
  case Nil
  then show ?case by simp
next
  case (Cons nv new)
  then have f: "fst nv \<notin> set (map fst out)" by auto
  from Cons.prems have "distinct (map fst (out @ [nv]) @ map fst new)" by auto
  from Cons.IH [OF this] f show ?case by (simp add: setitem_fresh)
qed

text \<open>The loop when no derived name meets another derived name or a column.\<close>

lemma one_hot_loop_fresh:
  assumes "set cols \<subseteq> set (map fst df)"
    and "distinct (map fst df @ map fst acc
            @ concat (map (\<lambda>col. map fst (indicator_columns df col sep m P)) cols))"
  shows "one_hot_loop (df @ acc) sep m (case P of None \<Rightarrow> Map.empty | Some q \<Rightarrow> q) cols
           = Inr (df @ acc @ concat (map (\<lambda>col. indicator_columns df col sep m P) cols))"
  using assms
proof (induction cols arbitrary: acc)
  case Nil
  then show ?case by simp
next
  case (Cons col cols)
  let ?new = "indicator_columns df col sep m P"
  from Cons.prems(1) have c: "col \<in> set (map fst df)" and rest: "set cols \<subseteq> set (map fst df)"
    by simp_all
  then have "map_of df col \<noteq> None" by (simp add: map_of_eq_None_iff)
  then have same: "map_of (df @ acc) col = map_of df col"
    by (auto simp: map_add_def split: option.splits)
  from Cons.prems(2) have d1: "distinct (map fst (df @ acc) @ map fst ?new)" by auto
  have step: "one_hot_column (df @ acc) col sep m (case P of None \<Rightarrow> Map.empty | Some q \<Rightarrow> q)
                = Inr (df @ acc @ ?new)"
    by (simp only: one_hot_column_spec [OF c same] fold_setitem_fresh [OF d1] append_assoc)
  from Cons.prems(2) have d2: "distinct (map fst df @ map fst (acc @ ?new)
            @ concat (map (\<lambda>col. map fst (indicator_columns df col sep m P)) cols))"
    by auto
  from Cons.IH [OF rest d2] step show ?case by simp
qed



lemma retained_member:
  "t \<in> set (retained df col sep m)
     \<longleftrightarrow> 1 \<le> occurrences df col sep t \<and> m \<le> int (occurrences df col sep t)"
proof -
  have "t \<in> set (concat (column_tokens df col sep)) \<longleftrightarrow> 1 \<le> occurrences df col sep t"
    unfolding occurrences_def
    by (metis count_list_0_iff less_one not_le)
  then show ?thesis by (auto simp: retained_def)
qed






section \<open>The tokenizer: claims\<close>






section \<open>The column classifier: claims\<close>




section \<open>The explosion transform: claims\<close>









text \<open>
  C3. The claim does not hold of the code. When a single column is selected the
  tuples are not unpacked: \<^verbatim>\<open>zip\<close> over one list yields 1-tuples, \<^verbatim>\<open>explode\<close> keeps
  them as cells, and \<^verbatim>\<open>out[col] = out["_combined"]\<close> stores them, although the
  comment beside it takes the cells to be scalars. The general unpacking on the same
  input gives the plain tokens.
\<close>

theorem C3_single_column_tuples:
  "explode_aligned_columns [(''id'', [Number 1]), (''A'', [Text ''x,y''])] [''A'']
       CHR '','' False False
     = Inr [(''id'', [Scalar (Number 1), Scalar (Number 1)]),
            (''A'', [Tuple [Some ''x''], Tuple [Some ''y'']])]
   \<and> explode_general_path [(''id'', [Number 1]), (''A'', [Text ''x,y''])] [''A'']
       CHR '','' False False
     = Inr [(''id'', [Scalar (Number 1), Scalar (Number 1)]),
            (''A'', [Scalar (Text ''x''), Scalar (Text ''y'')])]"
  by code_simp

text \<open>
  C5. The claim does not hold of the code when two or more columns are selected,
  \<^verbatim>\<open>keep_empty_rows\<close> is true and the first row of the exploded frame is an empty
  row: the list handed to the DataFrame constructor then starts with the NaN marker,
  is read as one column, and the constructor raises for the shape. With the flag
  false the row is dropped, with one selected column it is kept once with the
  selected column missing, and an empty row after a non-empty first one is kept too.
\<close>

theorem C5_keep_empty_rows_fails:
  "row_tokens [(''id'', [Number 1]), (''A'', [Missing]), (''B'', [Missing])] [''A'', ''B'']
       CHR '','' 0 = [[], []]
   \<and> explode_aligned_columns [(''id'', [Number 1]), (''A'', [Missing]), (''B'', [Missing])]
       [''A'', ''B''] CHR '','' True False
     = Inl (ValueError_shape (1, 1) (1, 2))
   \<and> explode_aligned_columns [(''id'', [Number 1]), (''A'', [Missing]), (''B'', [Missing])]
       [''A'', ''B''] CHR '','' False False
     = Inr [(''id'', []), (''A'', []), (''B'', [])]
   \<and> explode_aligned_columns [(''id'', [Number 1]), (''A'', [Missing]), (''B'', [Missing])]
       [''A''] CHR '','' True False
     = Inr [(''id'', [Scalar (Number 1)]), (''A'', [Scalar Missing]), (''B'', [Scalar Missing])]
   \<and> explode_aligned_columns
       [(''id'', [Number 1, Number 2]), (''A'', [Text ''x'', Missing]), (''B'', [Text ''y'', Missing])]
       [''A'', ''B''] CHR '','' True False
     = Inr [(''id'', [Scalar (Number 1), Scalar (Number 2)]),
            (''A'', [Scalar (Text ''x''), Scalar Missing]),
            (''B'', [Scalar (Text ''y''), Scalar Missing])]"
  by code_simp

section \<open>The indicator materializer: claims\<close>

text \<open>
  C7, as stated, fails in two ways. With \<open>min_count = 0\<close> a token that occurs exactly
  0 times has no indicator column: only tokens seen in the column are counted. And
  two retained tokens that differ only by a space against an underscore get the same
  column name, so the later assignment overwrites the earlier and the column no
  longer tells the rows of the first token.
\<close>

theorem C7_counterexample:
  "occurrences [(''X'', [Text ''a''])] ''X'' CHR '','' ''b'' = 0
   \<and> one_hot_multivalue_columns [(''X'', [Text ''a''])] [''X''] CHR '','' 0 None
       = Inr [(''X'', [Text ''a'']), (''X__a'', [Number 1])]
   \<and> occurrences [(''X'', [Text ''a b'', Text ''a_b''])] ''X'' CHR '','' ''a b'' = 1
   \<and> column_tokens [(''X'', [Text ''a b'', Text ''a_b''])] ''X'' CHR '',''
       = [[''a b''], [''a_b'']]
   \<and> col_name ''X'' ''a b'' = ''X__a_b''
   \<and> one_hot_multivalue_columns [(''X'', [Text ''a b'', Text ''a_b''])] [''X''] CHR '','' 1 None
       = Inr [(''X'', [Text ''a b'', Text ''a_b'']), (''X__a_b'', [Number 0, Number 1])]"
  by code_simp

text \<open>
  C7, amended. Let the target columns be columns of the table, and let the derived
  names be pairwise distinct and distinct from the names of the table's columns. Then
  the result is the table followed by the indicator columns, target column after
  target column and, within one target column, in sorted order of the retained
  tokens; a token is retained exactly when it occurs at least once and at least
  \<open>m\<close> times in the column (every occurrence within a cell counted); so a token
  occurring exactly \<open>m - 1\<close> times has no indicator column and, for \<open>m \<ge> 1\<close>, a
  token occurring exactly \<open>m\<close> times has one; the column of a token is named
  \<^verbatim>\<open>{prefix}__{token}\<close> with spaces replaced by underscores, the prefix being the
  column name unless \<^verbatim>\<open>prefix_map\<close> gives another; its value in a row is 1 when the
  token sequence of the row contains the token and 0 otherwise.
\<close>

theorem C7_indicator_threshold:
  assumes "set columns \<subseteq> set (map fst df)"
    and "distinct (map fst df
           @ concat (map (\<lambda>col. map fst (indicator_columns df col sep m P)) columns))"
  shows "one_hot_multivalue_columns df columns sep m P
           = Inr (df @ concat (map (\<lambda>col. indicator_columns df col sep m P) columns))
         \<and> indicator_columns df col sep m P
           = map (\<lambda>t. (col_name (prefix_of P col) t,
                        map (\<lambda>L. Number (if t \<in> set L then 1 else 0)) (column_tokens df col sep)))
               (retained df col sep m)
         \<and> sorted (retained df col sep m) \<and> distinct (retained df col sep m)
         \<and> (t \<in> set (retained df col sep m)
              \<longleftrightarrow> 1 \<le> occurrences df col sep t \<and> m \<le> int (occurrences df col sep t))
         \<and> (int (occurrences df col sep t) = m - 1 \<longrightarrow> t \<notin> set (retained df col sep m))
         \<and> (1 \<le> m \<and> int (occurrences df col sep t) = m \<longrightarrow> t \<in> set (retained df col sep m))
         \<and> col_name pref t = map (\<lambda>c. if c = CHR '' '' then CHR ''_'' else c) (pref @ ''__'' @ t)
         \<and> prefix_of None col = col
         \<and> prefix_of (Some pm) col = (case pm col of None \<Rightarrow> col | Some p \<Rightarrow> p)"
proof (intro conjI impI)
  from assms(2) have d: "distinct (map fst df @ map fst ([] :: cell frame)
           @ concat (map (\<lambda>col. map fst (indicator_columns df col sep m P)) columns))"
    by simp
  from one_hot_loop_fresh [OF assms(1) d]
  show "one_hot_multivalue_columns df columns sep m P
           = Inr (df @ concat (map (\<lambda>col. indicator_columns df col sep m P) columns))"
    by (simp add: one_hot_multivalue_columns_def df_copy_def)
next
  show "indicator_columns df col sep m P
           = map (\<lambda>t. (col_name (prefix_of P col) t,
                        map (\<lambda>L. Number (if t \<in> set L then 1 else 0)) (column_tokens df col sep)))
               (retained df col sep m)"
    by (simp add: indicator_columns_def indicator_def)
next
  show "sorted (retained df col sep m)" by (simp add: retained_def)
next
  show "distinct (retained df col sep m)" by (simp add: retained_def)
next
  show "t \<in> set (retained df col sep m)
              \<longleftrightarrow> 1 \<le> occurrences df col sep t \<and> m \<le> int (occurrences df col sep t)"
    by (rule retained_member)
next
  assume "int (occurrences df col sep t) = m - 1"
  then show "t \<notin> set (retained df col sep m)" by (simp add: retained_member)
next
  assume "1 \<le> m \<and> int (occurrences df col sep t) = m"
  then show "t \<in> set (retained df col sep m)" by (simp add: retained_member)
next
  show "col_name pref t = map (\<lambda>c. if c = CHR '' '' then CHR ''_'' else c) (pref @ ''__'' @ t)"
    by (simp add: col_name_def)
next
  show "prefix_of None col = col" by (simp add: prefix_of_def)
next
  show "prefix_of (Some pm) col = (case pm col of None \<Rightarrow> col | Some p \<Rightarrow> p)"
    by (simp add: prefix_of_def)
qed

theorem C7_indicator_threshold_witness:
  "set [''X''] \<subseteq> set (map fst [(''X'', [Text ''a,b,a'', Text ''b'', Text ''a c'', Missing])])
   \<and> distinct (map fst [(''X'', [Text ''a,b,a'', Text ''b'', Text ''a c'', Missing])]
        @ concat (map (\<lambda>col. map fst (indicator_columns
             [(''X'', [Text ''a,b,a'', Text ''b'', Text ''a c'', Missing])] col CHR '','' 2
             (Some [''X'' \<mapsto> ''P Q''])))
           [''X'']))
   \<and> one_hot_multivalue_columns [(''X'', [Text ''a,b,a'', Text ''b'', Text ''a c'', Missing])]
        [''X''] CHR '','' 2 (Some [''X'' \<mapsto> ''P Q''])
       = Inr [(''X'', [Text ''a,b,a'', Text ''b'', Text ''a c'', Missing]),
              (''P_Q__a'', [Number 1, Number 0, Number 0, Number 0]),
              (''P_Q__b'', [Number 1, Number 1, Number 0, Number 0])]
   \<and> int (occurrences [(''X'', [Text ''a,b,a'', Text ''b'', Text ''a c'', Missing])]
             ''X'' CHR '','' ''a c'') = 2 - 1
   \<and> ''a c'' \<notin> set (retained [(''X'', [Text ''a,b,a'', Text ''b'', Text ''a c'', Missing])]
             ''X'' CHR '','' 2)
   \<and> int (occurrences [(''X'', [Text ''a,b,a'', Text ''b'', Text ''a c'', Missing])]
             ''X'' CHR '','' ''b'') = 2
   \<and> ''b'' \<in> set (retained [(''X'', [Text ''a,b,a'', Text ''b'', Text ''a c'', Missing])]
             ''X'' CHR '','' 2)"
proof -
  let ?df = "[(''X'', [Text ''a,b,a'', Text ''b'', Text ''a c'', Missing])]"
  let ?P = "Some [''X'' \<mapsto> ''P Q'']"
  have ic: "indicator_columns ?df ''X'' CHR '','' 2 ?P
      = [(''P_Q__a'', [Number 1, Number 0, Number 0, Number 0]),
         (''P_Q__b'', [Number 1, Number 1, Number 0, Number 0])]"
    by code_simp
  have s: "set [''X''] \<subseteq> set (map fst ?df)" by simp
  have d: "distinct (map fst ?df
        @ concat (map (\<lambda>col. map fst (indicator_columns ?df col CHR '','' 2 ?P)) [''X'']))"
    by (simp add: ic)
  have o1: "int (occurrences ?df ''X'' CHR '','' ''a c'') = 2 - 1" by code_simp
  have o2: "int (occurrences ?df ''X'' CHR '','' ''b'') = 2" by code_simp
  note t1 = C7_indicator_threshold [OF s d, of "''X''" "''a c''"]
  note t2 = C7_indicator_threshold [OF s d, of "''X''" "''b''"]
  from t1 have "one_hot_multivalue_columns ?df [''X''] CHR '','' 2 ?P
           = Inr (?df @ concat (map (\<lambda>col. indicator_columns ?df col CHR '','' 2 ?P) [''X'']))"
    by (rule conjunct1)
  then have r: "one_hot_multivalue_columns ?df [''X''] CHR '','' 2 ?P
       = Inr [(''X'', [Text ''a,b,a'', Text ''b'', Text ''a c'', Missing]),
              (''P_Q__a'', [Number 1, Number 0, Number 0, Number 0]),
              (''P_Q__b'', [Number 1, Number 1, Number 0, Number 0])]"
    by (simp add: ic)
  from t1 o1 have n1: "''a c'' \<notin> set (retained ?df ''X'' CHR '','' 2)" by blast
  from t2 o2 have n2: "''b'' \<in> set (retained ?df ''X'' CHR '','' 2)" by simp
  from s d r o1 n1 o2 n2 show ?thesis by (intro conjI)
qed

section \<open>No change to the input table: claims\<close>





end
